theory Spec2Isabelle
  imports Complex_Main "HOL-Library.Sublist" "HOL-Library.Word" "HOL-Library.Multiset"
begin

section \<open>Python strings\<close>

text \<open>
  The program is one Streamlit script, \<^verbatim>\<open>app.py\<close>. Its strings are Python \<^verbatim>\<open>str\<close>
  values; here a string is a list of characters and a character is a code point below 256.
  On those code points \<^verbatim>\<open>str.isspace\<close>, \<^verbatim>\<open>str.strip\<close>, \<^verbatim>\<open>str.lower\<close> and
  \<^verbatim>\<open>str.split\<close> work character by character, as written below.
\<close>

text \<open>
  \<^verbatim>\<open>c.isspace()\<close> for one character: tab, line feed, vertical tab, form feed, carriage
  return, the four separators 0x1C..0x1F, the space, NEL (0x85) and the no-break space (0xA0).
\<close>

definition isspace :: "char \<Rightarrow> bool" where
  "isspace c = ((of_char c :: nat) \<in> {9, 10, 11, 12, 13, 28, 29, 30, 31, 32, 133, 160})"

text \<open>
  \<^verbatim>\<open>c.lower()\<close> for one character: the letters A..Z and the capital letters
  0xC0..0xDE (the multiplication sign 0xD7 apart) move up by 32; everything else stays.
\<close>

definition lower_char :: "char \<Rightarrow> char" where
  "lower_char c =
     (let n = (of_char c :: nat)
      in if (65 \<le> n \<and> n \<le> 90) \<or> (192 \<le> n \<and> n \<le> 222 \<and> n \<noteq> 215)
         then char_of (n + 32) else c)"

definition lower :: "string \<Rightarrow> string" where
  "lower s = map lower_char s"

definition lstrip :: "string \<Rightarrow> string" where
  "lstrip s = dropWhile isspace s"

definition rstrip :: "string \<Rightarrow> string" where
  "rstrip s = rev (dropWhile isspace (rev s))"

text \<open>\<^verbatim>\<open>s.strip()\<close>: whitespace is removed at both ends.\<close>

definition strip :: "string \<Rightarrow> string" where
  "strip s = rstrip (lstrip s)"

text \<open>
  \<^verbatim>\<open>s.split(sep)\<close> for a separator of one character. The scan keeps the piece read so far
  (reversed) and closes it at every separator and at the end of the string, so a string
  with n separators gives n + 1 pieces and the empty string gives one empty piece.
\<close>

fun split_from :: "char \<Rightarrow> string \<Rightarrow> string \<Rightarrow> string list" where
  "split_from sep acc [] = [rev acc]"
| "split_from sep acc (c # cs) =
     (if c = sep then rev acc # split_from sep [] cs else split_from sep (c # acc) cs)"

definition split :: "char \<Rightarrow> string \<Rightarrow> string list" where
  "split sep s = split_from sep [] s"

text \<open>\<^verbatim>\<open>sep.join(pieces)\<close>, the inverse of \<^verbatim>\<open>split\<close>, for a separator of one character.\<close>

fun join :: "char \<Rightarrow> string list \<Rightarrow> string" where
  "join sep [] = []"
| "join sep [p] = p"
| "join sep (p # q # ps) = p @ sep # join sep (q # ps)"

text \<open>\<^verbatim>\<open>needle in haystack\<close> on strings: the needle occurs as a contiguous run.\<close>

fun contains :: "string \<Rightarrow> string \<Rightarrow> bool" where
  "contains needle [] = (needle = [])"
| "contains needle (c # cs) = (prefix needle (c # cs) \<or> contains needle cs)"

section \<open>The stopword set of \<^verbatim>\<open>generate_wordcloud\<close>\<close>

text \<open>
  Lines 26 to 28 of \<^verbatim>\<open>app.py\<close>:
  \<^verbatim>\<open>
    stopwords_set = set(STOPWORDS)
    if custom_stopwords:
        stopwords_set.update([word.strip().lower()
                              for word in custom_stopwords.split(',') if word.strip()])
  \<close>
  \<^verbatim>\<open>STOPWORDS\<close> is the baseline set of the \<^verbatim>\<open>wordcloud\<close> library; it is a parameter
  here. A string is true in a condition when it is not empty.
\<close>

definition extra_stopwords :: "string \<Rightarrow> string list" where
  "extra_stopwords custom_stopwords =
     [lower (strip word). word \<leftarrow> split CHR '','' custom_stopwords, strip word \<noteq> []]"

definition stopwords_set :: "string set \<Rightarrow> string \<Rightarrow> string set" where
  "stopwords_set STOPWORDS custom_stopwords =
     (if custom_stopwords \<noteq> []
      then STOPWORDS \<union> set (extra_stopwords custom_stopwords)
      else STOPWORDS)"

section \<open>The word-cloud engine and \<^verbatim>\<open>generate_wordcloud\<close>\<close>

text \<open>
  The keyword arguments of the call \<^verbatim>\<open>WordCloud(...)\<close> on lines 30 to 42. The mask is an
  image array of the caller; \<^verbatim>\<open>width\<close> and \<^verbatim>\<open>height\<close> may be \<^verbatim>\<open>None\<close>. The source
  writes \<^verbatim>\<open>prefer_horizontal\<close> as the decimal literal \<^verbatim>\<open>0.9\<close>; the program does no
  arithmetic on it, and it is recorded here by its decimal value.
\<close>

record 'm wordcloud_kwargs =
  kw_background_color :: string
  kw_stopwords :: "string set"
  kw_max_words :: int
  kw_mask :: "'m option"
  kw_contour_width :: int
  kw_contour_color :: string
  kw_colormap :: string
  kw_width :: "int option"
  kw_height :: "int option"
  kw_min_font_size :: int
  kw_prefer_horizontal :: rat

text \<open>
  A raised exception, as far as the handler on lines 46 to 52 looks at it: whether it is an
  instance of \<^verbatim>\<open>ValueError\<close>, and its text \<^verbatim>\<open>str(e)\<close>.
\<close>

datatype exn = Exn (is_ValueError: bool) (str_of: string)

text \<open>
  The layout engine is the \<^verbatim>\<open>wordcloud\<close> library, which is not part of the repository; it
  is a parameter of the model. It is called twice: the constructor \<^verbatim>\<open>WordCloud(**kw)\<close>
  either raises or yields an object, and \<^verbatim>\<open>generate(text)\<close> of that object either raises
  or yields the generated word cloud.
\<close>

type_synonym ('m, 'w) engine = "'m wordcloud_kwargs \<Rightarrow> exn + (string \<Rightarrow> exn + 'w)"

text \<open>
  The figure built on lines 119 to 121: \<^verbatim>\<open>plt.subplots(figsize=(12, 6))\<close>,
  \<^verbatim>\<open>ax.imshow(wordcloud_object, interpolation='bilinear')\<close>, \<^verbatim>\<open>ax.axis("off")\<close>.
\<close>

record 'w figure =
  fig_figsize :: "int \<times> int"
  fig_image :: 'w
  fig_interpolation :: string
  fig_axis :: string

text \<open>
  The keyword arguments of \<^verbatim>\<open>fig.savefig\<close> on line 126; \<^verbatim>\<open>pad_inches\<close> is the decimal
  literal \<^verbatim>\<open>0.1\<close>.
\<close>

record savefig_kwargs =
  sf_format :: string
  sf_bbox_inches :: string
  sf_pad_inches :: rat
  sf_dpi :: int

type_synonym bytes = "8 word list"

text \<open>
  The encoder is matplotlib, again outside the repository: \<^verbatim>\<open>fig.savefig(buf, ...)\<close>
  followed by \<^verbatim>\<open>buf.getvalue()\<close> either raises or yields the bytes written.
\<close>

type_synonym 'w savefig = "'w figure \<Rightarrow> savefig_kwargs \<Rightarrow> exn + bytes"

text \<open>The keyword arguments of \<^verbatim>\<open>st.download_button\<close> on lines 135 to 141.\<close>

record download_button_kwargs =
  db_label :: string
  db_data :: bytes
  db_file_name :: string
  db_mime :: string
  db_use_container_width :: bool

text \<open>
  What one run of the script does that can be seen from outside, in order: the messages and
  widgets it puts on the page and the calls it makes to the two libraries.
\<close>

datatype ('m, 'w) event =
    Warning string
  | Spinner string
  | Generate "'m wordcloud_kwargs" string
  | Subheader string
  | Pyplot "'w figure"
  | Savefig "'w figure" savefig_kwargs
  | Download_button download_button_kwargs

text \<open>The constructor call on lines 30 to 42.\<close>

definition wordcloud_kwargs ::
  "string set \<Rightarrow> int \<Rightarrow> string \<Rightarrow> string \<Rightarrow> string \<Rightarrow> 'm option \<Rightarrow> int \<Rightarrow> string \<Rightarrow> bool
     \<Rightarrow> 'm wordcloud_kwargs" where
  "wordcloud_kwargs STOPWORDS max_words background_color colormap custom_stopwords
       mask_image_array contour_width contour_color use_contour =
     \<lparr> kw_background_color = background_color,
       kw_stopwords = stopwords_set STOPWORDS custom_stopwords,
       kw_max_words = max_words,
       kw_mask = mask_image_array,
       kw_contour_width = (if use_contour \<and> mask_image_array \<noteq> None then contour_width else 0),
       kw_contour_color =
         (if use_contour \<and> mask_image_array \<noteq> None then contour_color else ''black''),
       kw_colormap = colormap,
       kw_width = (if mask_image_array = None then Some 1200 else None),
       kw_height = (if mask_image_array = None then Some 600 else None),
       kw_min_font_size = 10,
       kw_prefer_horizontal = 9 / 10 \<rparr>"

definition empty_result_warning :: string where
  "empty_result_warning =
     ''The provided text resulted in no words to display after processing '' @
     ''(e.g., all stopwords or too short). Please try different text or fewer stopwords.''"

text \<open>
  \<^verbatim>\<open>generate_wordcloud\<close>, lines 24 to 52. The result is \<^verbatim>\<open>Inr (Some wc)\<close> for
  \<^verbatim>\<open>return wc\<close>, \<^verbatim>\<open>Inr None\<close> for \<^verbatim>\<open>return None\<close> and \<^verbatim>\<open>Inl e\<close> when the exception
  \<^verbatim>\<open>e\<close> leaves the function; the events are in the second component. The constructor
  call of lines 30 to 42 stands before the \<^verbatim>\<open>try\<close> of line 43, so an exception of the
  constructor leaves the function whatever it is; only \<^verbatim>\<open>wc.generate(text)\<close> on line 44
  is guarded by the handler of lines 46 to 52. \<^verbatim>\<open>Generate kw text\<close> records that call.
\<close>

definition generate_wordcloud ::
  "string set \<Rightarrow> ('m, 'w) engine \<Rightarrow> string \<Rightarrow> int \<Rightarrow> string \<Rightarrow> string \<Rightarrow> string \<Rightarrow> 'm option
     \<Rightarrow> int \<Rightarrow> string \<Rightarrow> bool \<Rightarrow> (exn + 'w option) \<times> ('m, 'w) event list" where
  "generate_wordcloud STOPWORDS engine text max_words background_color colormap
       custom_stopwords mask_image_array contour_width contour_color use_contour =
     (let kw = wordcloud_kwargs STOPWORDS max_words background_color colormap custom_stopwords
                 mask_image_array contour_width contour_color use_contour
      in case engine kw of
           Inl e \<Rightarrow> (Inl e, [])
         | Inr generate \<Rightarrow>
             (case generate text of
                Inr wc \<Rightarrow> (Inr (Some wc), [Generate kw text])
              | Inl e \<Rightarrow>
                  if is_ValueError e then
                    if contains ''empty'' (lower (str_of e))
                    then (Inr None, [Generate kw text, Warning empty_result_warning])
                    else (Inl e, [Generate kw text])
                  else (Inl e, [Generate kw text])))"

section \<open>The script\<close>

text \<open>
  The slider on line 78: \<^verbatim>\<open>st.slider("Maximum Words:", min_value=10, max_value=500,
  value=100, step=10)\<close>. The widget belongs to the Streamlit runtime; what it hands to the
  script is a value on its grid, between the two ends.
\<close>

record slider =
  slider_min_value :: int
  slider_max_value :: int
  slider_value :: int
  slider_step :: int

definition max_words_slider :: slider where
  "max_words_slider =
     \<lparr> slider_min_value = 10, slider_max_value = 500, slider_value = 100, slider_step = 10 \<rparr>"

definition slider_returns :: "slider \<Rightarrow> int \<Rightarrow> bool" where
  "slider_returns s v =
     (slider_min_value s \<le> v \<and> v \<le> slider_max_value s \<and>
      (v - slider_min_value s) mod slider_step s = 0)"

text \<open>
  The labels of lines 102, 116 and 136. Two of them begin with a pictograph, which lies
  outside the character range used here; it is given by its four UTF-8 bytes.
\<close>

definition spinner_label :: string where
  "spinner_label = ''Generating your word cloud... Please wait.''"

definition result_label :: string where
  "result_label = [CHR 0xF0, CHR 0x9F, CHR 0x8E, CHR 0x89] @ '' Your Word Cloud:''"

definition download_label :: string where
  "download_label = [CHR 0xF0, CHR 0x9F, CHR 0x93, CHR 0xA5] @ '' Download Word Cloud (PNG)''"

definition empty_input_warning :: string where
  "empty_input_warning = ''Please enter some text to generate a word cloud.''"

definition figure_of :: "'w \<Rightarrow> 'w figure" where
  "figure_of wordcloud_object =
     \<lparr> fig_figsize = (12, 6), fig_image = wordcloud_object,
       fig_interpolation = ''bilinear'', fig_axis = ''off'' \<rparr>"

definition png_kwargs :: savefig_kwargs where
  "png_kwargs =
     \<lparr> sf_format = ''PNG'', sf_bbox_inches = ''tight'', sf_pad_inches = 1 / 10, sf_dpi = 300 \<rparr>"

text \<open>
  Lines 72 and 94 to 131: the part of a run up to the download button. The arguments are
  what the widgets return in this run: whether the button was pressed, the text area, the
  slider, the colour picker, the select box and the stopword field. The result is the value
  of \<^verbatim>\<open>wordcloud_image_bytes\<close> at line 133, or the exception that ended the run. A
  generated object counts as true on line 115 (the class defines neither \<^verbatim>\<open>__bool__\<close>
  nor \<^verbatim>\<open>__len__\<close>), \<^verbatim>\<open>None\<close> as false. The page header, the titles and the drawing
  of the input widgets themselves happen in every run alike and are left out.
\<close>

definition generate_section ::
  "string set \<Rightarrow> ('m, 'w) engine \<Rightarrow> 'w savefig \<Rightarrow> bool \<Rightarrow> string \<Rightarrow> int \<Rightarrow> string \<Rightarrow> string
     \<Rightarrow> string \<Rightarrow> (exn + bytes option) \<times> ('m, 'w) event list" where
  "generate_section STOPWORDS engine savefig button user_text max_words background_color
       selected_colormap custom_stopwords_input =
     (let wordcloud_image_bytes = None;
          mask_array = None;
          use_contour = False;
          contour_width = 0;
          contour_color = ''black''
      in if button then
           if user_text \<noteq> [] \<and> strip user_text \<noteq> [] then
             (case generate_wordcloud STOPWORDS engine user_text max_words background_color
                     selected_colormap custom_stopwords_input mask_array contour_width
                     contour_color use_contour of
                (Inl e, evs) \<Rightarrow> (Inl e, Spinner spinner_label # evs)
              | (Inr None, evs) \<Rightarrow> (Inr wordcloud_image_bytes, Spinner spinner_label # evs)
              | (Inr (Some wordcloud_object), evs) \<Rightarrow>
                  (let fig = figure_of wordcloud_object;
                       shown = Spinner spinner_label # evs @
                                 [Subheader result_label, Pyplot fig, Savefig fig png_kwargs]
                   in case savefig fig png_kwargs of
                        Inl e \<Rightarrow> (Inl e, shown)
                      | Inr img \<Rightarrow> (Inr (Some img), shown)))
           else if user_text = [] \<or> strip user_text = [] then
             (Inr wordcloud_image_bytes, [Warning empty_input_warning])
           else (Inr wordcloud_image_bytes, [])
         else (Inr wordcloud_image_bytes, []))"

text \<open>
  Lines 134 to 141. \<^verbatim>\<open>if wordcloud_image_bytes:\<close> holds for a value that is neither
  \<^verbatim>\<open>None\<close> nor the empty byte string.
\<close>

definition download_section :: "bytes option \<Rightarrow> ('m, 'w) event list" where
  "download_section wordcloud_image_bytes =
     (case wordcloud_image_bytes of
        None \<Rightarrow> []
      | Some img \<Rightarrow>
          if img \<noteq> [] then
            [Download_button
               \<lparr> db_label = download_label, db_data = img, db_file_name = ''my_word_cloud.png'',
                 db_mime = ''image/png'', db_use_container_width = True \<rparr>]
          else [])"

text \<open>
  One run of the script. The first component is \<^verbatim>\<open>None\<close> when the run reaches the end of
  the file and \<^verbatim>\<open>Some e\<close> when the exception \<^verbatim>\<open>e\<close> ends it; an exception leaves the
  download button undrawn.
\<close>

definition app ::
  "string set \<Rightarrow> ('m, 'w) engine \<Rightarrow> 'w savefig \<Rightarrow> bool \<Rightarrow> string \<Rightarrow> int \<Rightarrow> string \<Rightarrow> string
     \<Rightarrow> string \<Rightarrow> exn option \<times> ('m, 'w) event list" where
  "app STOPWORDS engine savefig button user_text max_words background_color
       selected_colormap custom_stopwords_input =
     (case generate_section STOPWORDS engine savefig button user_text max_words
             background_color selected_colormap custom_stopwords_input of
        (Inl e, evs) \<Rightarrow> (Some e, evs)
      | (Inr wordcloud_image_bytes, evs) \<Rightarrow>
          (None, evs @ download_section wordcloud_image_bytes))"

section \<open>Stand-ins for the two libraries\<close>

text \<open>
  Engines and encoders that answer every request alike, for the concrete runs below. The
  constructor of both engines succeeds; the first generates the given word cloud, the second
  raises the given exception in \<^verbatim>\<open>generate\<close>.
\<close>

definition engine_yielding :: "'w \<Rightarrow> ('m, 'w) engine" where
  "engine_yielding wc = (\<lambda>kw. Inr (\<lambda>text. Inr wc))"

definition engine_raising :: "exn \<Rightarrow> ('m, 'w) engine" where
  "engine_raising e = (\<lambda>kw. Inr (\<lambda>text. Inl e))"

definition savefig_yielding :: "bytes \<Rightarrow> 'w savefig" where
  "savefig_yielding img = (\<lambda>fig kw. Inr img)"

section \<open>Facts about the string operations\<close>

lemma split_from_ne: "split_from sep acc s \<noteq> []"
  by (induction s arbitrary: acc) auto

lemma split_from_join: "join sep (split_from sep acc s) = rev acc @ s"
proof (induction s arbitrary: acc)
  case Nil
  show ?case by simp
next
  case (Cons c cs)
  show ?case
  proof (cases "c = sep")
    case True
    obtain p ps where "split_from sep [] cs = p # ps"
      using split_from_ne [of sep "[]" cs] by (cases "split_from sep [] cs") auto
    with Cons.IH [of "[]"] True show ?thesis by simp
  next
    case False
    with Cons.IH [of "c # acc"] show ?thesis by simp
  qed
qed

lemma join_split: "join sep (split sep s) = s"
  by (simp add: split_def split_from_join)

lemma split_from_no_sep:
  "sep \<notin> set acc \<Longrightarrow> \<forall>p\<in>set (split_from sep acc s). sep \<notin> set p"
proof (induction s arbitrary: acc)
  case Nil
  then show ?case by simp
next
  case (Cons c cs)
  show ?case
  proof (cases "c = sep")
    case True
    with Cons.IH [of "[]"] Cons.prems show ?thesis by simp
  next
    case False
    with Cons.IH [of "c # acc"] Cons.prems show ?thesis by simp
  qed
qed

lemma split_no_sep: "p \<in> set (split sep s) \<Longrightarrow> sep \<notin> set p"
  using split_from_no_sep [of sep "[]" s] by (simp add: split_def)

lemma split_from_piece:
  "sep \<notin> set p \<Longrightarrow> split_from sep acc p = [rev acc @ p]"
  by (induction p arbitrary: acc) auto

lemma split_from_piece_sep:
  "sep \<notin> set p \<Longrightarrow> split_from sep acc (p @ sep # s) = (rev acc @ p) # split_from sep [] s"
  by (induction p arbitrary: acc) auto

lemma split_join:
  "ps \<noteq> [] \<Longrightarrow> \<forall>p\<in>set ps. sep \<notin> set p \<Longrightarrow> split sep (join sep ps) = ps"
proof (induction sep ps rule: join.induct)
  case (1 sep)
  then show ?case by simp
next
  case (2 sep p)
  then show ?case by (simp add: split_def split_from_piece)
next
  case (3 sep p q ps)
  then show ?case by (simp add: split_def split_from_piece_sep)
qed

lemma of_char_lt: "(of_char c :: nat) < 256"
  by (cases c) simp

lemma isspace_lower_char: "isspace (lower_char c) = isspace c"
  using of_char_lt [of c]
  by (auto simp: isspace_def lower_char_def Let_def)



lemma lower_Nil_iff: "lower s = [] \<longleftrightarrow> s = []" "[] = lower s \<longleftrightarrow> s = []"
  by (auto simp: lower_def)

lemma dropWhile_map_lower:
  "dropWhile isspace (map lower_char s) = map lower_char (dropWhile isspace s)"
  by (induction s) (auto simp: isspace_lower_char)

lemma lower_strip: "lower (strip s) = strip (lower s)"
  by (simp add: lower_def strip_def lstrip_def rstrip_def dropWhile_map_lower rev_map)

lemma strip_empty_iff: "strip s = [] \<longleftrightarrow> (\<forall>c\<in>set s. isspace c)"
proof
  assume "strip s = []"
  then have "dropWhile isspace (rev (dropWhile isspace s)) = []"
    by (simp add: strip_def rstrip_def lstrip_def)
  then have "\<forall>c\<in>set (dropWhile isspace s). isspace c"
    by (simp add: dropWhile_eq_Nil_conv)
  then have "dropWhile isspace s = []"
    by (metis hd_dropWhile list.set_sel(1))
  then show "\<forall>c\<in>set s. isspace c" by (simp add: dropWhile_eq_Nil_conv)
next
  assume "\<forall>c\<in>set s. isspace c"
  then show "strip s = []"
    unfolding strip_def rstrip_def lstrip_def by (auto dest: set_dropWhileD)
qed

lemma strip_pad:
  assumes "\<forall>c\<in>set l. isspace c" "\<forall>c\<in>set r. isspace c"
  shows "strip (l @ w @ r) = strip w"
proof -
  have a: "dropWhile isspace (l @ w @ r) = dropWhile isspace (w @ r)"
    using assms(1) by simp
  show ?thesis
  proof (cases "\<forall>c\<in>set w. isspace c")
    case True
    then have "strip w = []" by (simp add: strip_empty_iff)
    moreover have "strip (l @ w @ r) = []" using True assms by (auto simp: strip_empty_iff)
    ultimately show ?thesis by simp
  next
    case False
    then have b: "dropWhile isspace (w @ r) = dropWhile isspace w @ r"
      by (metis dropWhile_append1)
    have "dropWhile isspace w \<noteq> []" using False by (simp add: dropWhile_eq_Nil_conv)
    then have "\<not> (\<forall>c\<in>set (rev (dropWhile isspace w)). isspace c)"
      by (metis hd_dropWhile list.set_sel(1) set_rev)
    then show ?thesis using a b assms(2)
      by (auto simp: strip_def lstrip_def rstrip_def dropWhile_append)
  qed
qed

lemma set_extra_stopwords:
  "set (extra_stopwords s) = (\<lambda>word. lower (strip word)) ` {word \<in> set (split CHR '','' s). strip word \<noteq> []}"
  by (auto simp: extra_stopwords_def)

lemma stopwords_set_eq:
  "stopwords_set B s = B \<union> (\<lambda>word. lower (strip word)) ` {word \<in> set (split CHR '','' s). strip word \<noteq> []}"
proof (cases "s = []")
  case True
  then show ?thesis
    by (auto simp: stopwords_set_def split_def strip_def lstrip_def rstrip_def)
next
  case False
  then show ?thesis by (simp add: stopwords_set_def set_extra_stopwords)
qed

lemma stopwords_set_join:
  assumes "\<forall>w\<in>set ws. CHR '','' \<notin> set w"
  shows "stopwords_set B (join CHR '','' ws) = B \<union> ((\<lambda>word. lower (strip word)) ` set ws - {[]})"
proof (cases "ws = []")
  case True
  then show ?thesis by (simp add: stopwords_set_def)
next
  case False
  with assms have "split CHR '','' (join CHR '','' ws) = ws" by (simp add: split_join)
  then show ?thesis by (auto simp: stopwords_set_eq lower_Nil_iff)
qed

lemma norm_image_strip:
  "(\<lambda>word. lower (strip word)) ` set ws = lower ` set (map strip ws)"
  by auto

lemma norm_image_lower:
  "(\<lambda>word. lower (strip word)) ` set ws = strip ` set (map lower ws)"
  by (auto simp: lower_strip)

lemma stopwords_set_blank:
  assumes "\<forall>w\<in>set (split CHR '','' s). \<forall>c\<in>set w. isspace c"
  shows "stopwords_set B s = B"
  using assms by (auto simp: stopwords_set_eq strip_empty_iff)

section \<open>Facts about one run\<close>

lemma strip_Nil: "strip [] = []"
  by (simp add: strip_def lstrip_def rstrip_def)

lemma generate_wordcloud_constructor_raises:
  assumes "engine (wordcloud_kwargs B max_words background_color colormap custom_stopwords
             mask_image_array contour_width contour_color use_contour) = Inl e"
  shows "generate_wordcloud B engine text max_words background_color colormap custom_stopwords
           mask_image_array contour_width contour_color use_contour = (Inl e, [])"
  using assms by (simp add: generate_wordcloud_def)

lemma snd_generate_wordcloud:
  "snd (generate_wordcloud B engine text max_words background_color colormap custom_stopwords
          mask_image_array contour_width contour_color use_contour) =
     (case engine (wordcloud_kwargs B max_words background_color colormap custom_stopwords
                     mask_image_array contour_width contour_color use_contour) of
        Inl e \<Rightarrow> []
      | Inr generate \<Rightarrow>
          Generate (wordcloud_kwargs B max_words background_color colormap custom_stopwords
                      mask_image_array contour_width contour_color use_contour) text #
          (if fst (generate_wordcloud B engine text max_words background_color colormap
                     custom_stopwords mask_image_array contour_width contour_color use_contour)
                = Inr None
           then [Warning empty_result_warning] else []))"
  by (simp add: generate_wordcloud_def Let_def split: sum.splits)

lemma app_Generate:
  assumes "Generate kw t \<in> set (snd (app B engine savefig button user_text max_words
             background_color selected_colormap custom_stopwords_input))"
  shows "kw = wordcloud_kwargs B max_words background_color selected_colormap
                custom_stopwords_input None 0 ''black'' False
         \<and> t = user_text \<and> button \<and> strip user_text \<noteq> []"
  using assms
  by (auto simp: app_def generate_section_def download_section_def generate_wordcloud_def
        Let_def split: if_splits sum.splits option.splits prod.splits)

lemma app_Download_button:
  assumes "Download_button d \<in> set (snd (app B engine savefig button user_text max_words
             background_color selected_colormap custom_stopwords_input))"
  shows "\<exists>generate wc img.
             engine (wordcloud_kwargs B max_words background_color selected_colormap
                custom_stopwords_input None 0 ''black'' False) = Inr generate
           \<and> generate user_text = Inr wc
           \<and> savefig (figure_of wc) png_kwargs = Inr img \<and> img \<noteq> []
           \<and> d = \<lparr> db_label = download_label, db_data = img,
                   db_file_name = ''my_word_cloud.png'', db_mime = ''image/png'',
                   db_use_container_width = True \<rparr>
           \<and> button \<and> strip user_text \<noteq> []"
  using assms
  by (auto simp: app_def generate_section_def download_section_def generate_wordcloud_def
        Let_def split: if_splits sum.splits option.splits prod.splits)

lemma app_success:
  assumes "strip user_text \<noteq> []"
    and "engine (wordcloud_kwargs B max_words background_color selected_colormap
                custom_stopwords_input None 0 ''black'' False) = Inr generate"
    and "generate user_text = Inr wc"
  shows "app B engine savefig True user_text max_words background_color selected_colormap
           custom_stopwords_input =
         (case savefig (figure_of wc) png_kwargs of
            Inl e \<Rightarrow> Some e | Inr img \<Rightarrow> None,
          [Spinner spinner_label,
           Generate (wordcloud_kwargs B max_words background_color selected_colormap
                custom_stopwords_input None 0 ''black'' False) user_text,
           Subheader result_label, Pyplot (figure_of wc), Savefig (figure_of wc) png_kwargs] @
          (case savefig (figure_of wc) png_kwargs of
            Inl e \<Rightarrow> [] | Inr img \<Rightarrow> download_section (Some img)))"
proof -
  from assms(1) have "user_text \<noteq> []" using strip_Nil by auto
  with assms show ?thesis
    by (simp add: app_def generate_section_def generate_wordcloud_def Let_def
          split: sum.splits)
qed

text \<open>A run on the text of six words, with an engine and an encoder that succeed.\<close>

lemma strip_dog: "strip ''dog dog cat bird dog cat'' \<noteq> []"
  by (simp add: strip_def lstrip_def rstrip_def isspace_def)

lemma app_dog:
  "app {''the'', ''a''} (engine_yielding (0::nat) :: (unit, nat) engine)
     (savefig_yielding [0x89, 0x50, 0x4E, 0x47, 0x0D, 0x0A, 0x1A, 0x0A]) True
     ''dog dog cat bird dog cat'' 100 ''#FFFFFF'' ''viridis'' ''thing, stuff'' =
   (None,
    [Spinner spinner_label,
     Generate (wordcloud_kwargs {''the'', ''a''} 100 ''#FFFFFF'' ''viridis'' ''thing, stuff''
       None 0 ''black'' False) ''dog dog cat bird dog cat'',
     Subheader result_label, Pyplot (figure_of 0), Savefig (figure_of 0) png_kwargs,
     Download_button \<lparr> db_label = download_label,
       db_data = [0x89, 0x50, 0x4E, 0x47, 0x0D, 0x0A, 0x1A, 0x0A],
       db_file_name = ''my_word_cloud.png'', db_mime = ''image/png'',
       db_use_container_width = True \<rparr>])"
  using app_success [where engine = "engine_yielding (0::nat) :: (unit, nat) engine"
      and B = "{''the'', ''a''}" and max_words = 100 and background_color = "''#FFFFFF''"
      and selected_colormap = "''viridis''" and custom_stopwords_input = "''thing, stuff''"
      and generate = "\<lambda>text. Inr 0" and wc = 0
      and savefig = "savefig_yielding [0x89, 0x50, 0x4E, 0x47, 0x0D, 0x0A, 0x1A, 0x0A]",
      OF strip_dog]
  by (simp add: engine_yielding_def savefig_yielding_def download_section_def)

lemma Generate_dog:
  "Generate (wordcloud_kwargs {''the'', ''a''} 100 ''#FFFFFF'' ''viridis'' ''thing, stuff''
       None 0 ''black'' False) ''dog dog cat bird dog cat''
   \<in> set (snd (app {''the'', ''a''} (engine_yielding (0::nat) :: (unit, nat) engine)
     (savefig_yielding [0x89, 0x50, 0x4E, 0x47, 0x0D, 0x0A, 0x1A, 0x0A]) True
     ''dog dog cat bird dog cat'' 100 ''#FFFFFF'' ''viridis'' ''thing, stuff''))"
  by (simp add: app_dog)

section \<open>The claims\<close>

text \<open>
  Claim C1. When the button is pressed and the text is empty or made of whitespace only, the
  run shows the warning that asks for text and nothing else: \<^verbatim>\<open>generate_wordcloud\<close> is
  not called (there is no spinner and no \<^verbatim>\<open>Generate\<close> event, whatever the engine is),
  no image is shown and no download button is drawn.
\<close>
theorem blank_input_warns_only:
  assumes "\<forall>c\<in>set user_text. isspace c"
  shows "app B engine savefig True user_text max_words background_color selected_colormap
           custom_stopwords_input = (None, [Warning empty_input_warning])"
proof -
  from assms have "strip user_text = []" by (simp add: strip_empty_iff)
  then show ?thesis
    by (simp add: app_def generate_section_def download_section_def)
qed

theorem blank_input_warns_only_witness:
  "app {''the'', ''a''} (engine_yielding (0::nat) :: (unit, nat) engine)
     (savefig_yielding [0x89, 0x50, 0x4E, 0x47]) True '' '' 100 ''#FFFFFF'' ''viridis'' ''''
   = (None, [Warning empty_input_warning])"
proof -
  have h: "\<forall>c\<in>set '' ''. isspace c" by (simp add: isspace_def)
  from blank_input_warns_only [OF h] show ?thesis by blast
qed


text \<open>
  Claim C3 against the code. The handler of lines 46 to 52 is written for the text that is
  left without words (its comment and its warning say so), and it recognises that failure by
  the word \<^verbatim>\<open>empty\<close> in the message. The \<^verbatim>\<open>wordcloud\<close> library reports a text without
  eligible words by a \<^verbatim>\<open>ValueError\<close> that reads \<^verbatim>\<open>We need at least 1 word to plot a word
  cloud, got 0.\<close>; the word is not in it. On the text \<^verbatim>\<open>the a an the a\<close>, all stopwords,
  \<^verbatim>\<open>generate_wordcloud\<close> therefore re-raises on line 52: it returns nothing and shows no
  warning, and the run of the script ends with the exception after the spinner.
\<close>
theorem no_words_text_ends_the_run:
  "generate_wordcloud {''the'', ''a'', ''an''}
     (engine_raising (Exn True ''We need at least 1 word to plot a word cloud, got 0.'')
        :: (unit, nat) engine)
     ''the a an the a'' 100 ''#FFFFFF'' ''viridis'' [] None 0 ''black'' False =
   (Inl (Exn True ''We need at least 1 word to plot a word cloud, got 0.''),
    [Generate (wordcloud_kwargs {''the'', ''a'', ''an''} 100 ''#FFFFFF'' ''viridis'' [] None 0
        ''black'' False) ''the a an the a''])
   \<and> app {''the'', ''a'', ''an''}
     (engine_raising (Exn True ''We need at least 1 word to plot a word cloud, got 0.'')
        :: (unit, nat) engine)
     (savefig_yielding [0x89, 0x50, 0x4E, 0x47, 0x0D, 0x0A, 0x1A, 0x0A]) True
     ''the a an the a'' 100 ''#FFFFFF'' ''viridis'' [] =
   (Some (Exn True ''We need at least 1 word to plot a word cloud, got 0.''),
    [Spinner spinner_label,
     Generate (wordcloud_kwargs {''the'', ''a'', ''an''} 100 ''#FFFFFF'' ''viridis'' [] None 0
        ''black'' False) ''the a an the a''])"
proof -
  have g: "generate_wordcloud {''the'', ''a'', ''an''}
     (engine_raising (Exn True ''We need at least 1 word to plot a word cloud, got 0.'')
        :: (unit, nat) engine)
     ''the a an the a'' 100 ''#FFFFFF'' ''viridis'' [] None 0 ''black'' False =
   (Inl (Exn True ''We need at least 1 word to plot a word cloud, got 0.''),
    [Generate (wordcloud_kwargs {''the'', ''a'', ''an''} 100 ''#FFFFFF'' ''viridis'' [] None 0
        ''black'' False) ''the a an the a''])"
    by (simp add: generate_wordcloud_def engine_raising_def lower_def lower_char_def)
  have t: "strip ''the a an the a'' \<noteq> []"
    by (simp add: strip_def lstrip_def rstrip_def isspace_def)
  from g t show ?thesis
    by (simp add: app_def generate_section_def)
qed

text \<open>
  Claim C4. In every run the download button is drawn if and only if, in that same run, the
  button was pressed, the text was not blank, the engine produced a word cloud and the
  encoder returned its bytes (a PNG file is never empty, and the empty byte string counts as
  false on line 134). \<^verbatim>\<open>wordcloud_image_bytes\<close> is \<^verbatim>\<open>None\<close> when the button was not
  pressed, and it holds bytes exactly after a successful generation and encoding.
\<close>
theorem download_offered_iff_encoded:
  "((\<exists>d. Download_button d \<in> set (snd (app B engine savefig button user_text max_words
        background_color selected_colormap custom_stopwords_input))) \<longleftrightarrow>
    (button \<and> user_text \<noteq> [] \<and> strip user_text \<noteq> [] \<and>
     (\<exists>generate wc img.
        engine (wordcloud_kwargs B max_words background_color selected_colormap
                   custom_stopwords_input None 0 ''black'' False) = Inr generate
        \<and> generate user_text = Inr wc
        \<and> savefig (figure_of wc) png_kwargs = Inr img \<and> img \<noteq> [])))
   \<and> fst (generate_section B engine savefig False user_text max_words background_color
        selected_colormap custom_stopwords_input) = Inr None
   \<and> (\<forall>img. fst (generate_section B engine savefig button user_text max_words
        background_color selected_colormap custom_stopwords_input) = Inr (Some img) \<longleftrightarrow>
        button \<and> user_text \<noteq> [] \<and> strip user_text \<noteq> [] \<and>
        (\<exists>generate wc.
           engine (wordcloud_kwargs B max_words background_color selected_colormap
                   custom_stopwords_input None 0 ''black'' False) = Inr generate
           \<and> generate user_text = Inr wc
           \<and> savefig (figure_of wc) png_kwargs = Inr img))"
proof -
  let ?kw = "wordcloud_kwargs B max_words background_color selected_colormap
                   custom_stopwords_input None 0 ''black'' False"
  have a: "(\<exists>d. Download_button d \<in> set (snd (app B engine savefig button user_text max_words
        background_color selected_colormap custom_stopwords_input))) \<longleftrightarrow>
    (button \<and> user_text \<noteq> [] \<and> strip user_text \<noteq> [] \<and>
     (\<exists>generate wc img. engine ?kw = Inr generate \<and> generate user_text = Inr wc
        \<and> savefig (figure_of wc) png_kwargs = Inr img \<and> img \<noteq> []))" (is "?L \<longleftrightarrow> ?R")
  proof
    assume ?L
    then obtain d where "Download_button d \<in> set (snd (app B engine savefig button user_text
        max_words background_color selected_colormap custom_stopwords_input))" ..
    from app_Download_button [OF this] show ?R using strip_Nil by auto
  next
    assume r: ?R
    then obtain generate wc img where e: "engine ?kw = Inr generate"
      and g: "generate user_text = Inr wc"
      and s: "savefig (figure_of wc) png_kwargs = Inr img" and n: "img \<noteq> []" by blast
    from r have b: button and t: "strip user_text \<noteq> []" by simp_all
    from app_success [where engine = engine and generate = generate and savefig = savefig,
        OF t e g] s n b
    show ?L
      by (auto simp: download_section_def)
  qed
  have b: "fst (generate_section B engine savefig False user_text max_words background_color
        selected_colormap custom_stopwords_input) = Inr None"
    by (simp add: generate_section_def)
  have c: "\<forall>img. fst (generate_section B engine savefig button user_text max_words
        background_color selected_colormap custom_stopwords_input) = Inr (Some img) \<longleftrightarrow>
        button \<and> user_text \<noteq> [] \<and> strip user_text \<noteq> [] \<and>
        (\<exists>generate wc. engine ?kw = Inr generate \<and> generate user_text = Inr wc
           \<and> savefig (figure_of wc) png_kwargs = Inr img)"
    by (auto simp: generate_section_def generate_wordcloud_def Let_def
          split: sum.splits option.splits prod.splits if_splits)
  from a b c show ?thesis by blast
qed

text \<open>
  Claim C5. Whatever the text, the options and the stopwords are, a download button that is
  drawn carries the file name \<^verbatim>\<open>my_word_cloud.png\<close> and the mime type \<^verbatim>\<open>image/png\<close>.
\<close>
theorem download_name_and_mime_fixed:
  assumes "Download_button d \<in> set (snd (app B engine savefig button user_text max_words
             background_color selected_colormap custom_stopwords_input))"
  shows "db_file_name d = ''my_word_cloud.png'' \<and> db_mime d = ''image/png''"
proof -
  from app_Download_button [OF assms] obtain img where
    "d = \<lparr> db_label = download_label, db_data = img, db_file_name = ''my_word_cloud.png'',
          db_mime = ''image/png'', db_use_container_width = True \<rparr>"
    by blast
  then show ?thesis by simp
qed

theorem download_name_and_mime_fixed_witness:
  "db_file_name \<lparr> db_label = download_label,
       db_data = [0x89, 0x50, 0x4E, 0x47, 0x0D, 0x0A, 0x1A, 0x0A],
       db_file_name = ''my_word_cloud.png'', db_mime = ''image/png'',
       db_use_container_width = True \<rparr> = ''my_word_cloud.png''
   \<and> Download_button \<lparr> db_label = download_label,
       db_data = [0x89, 0x50, 0x4E, 0x47, 0x0D, 0x0A, 0x1A, 0x0A],
       db_file_name = ''my_word_cloud.png'', db_mime = ''image/png'',
       db_use_container_width = True \<rparr>
     \<in> set (snd (app {''the'', ''a''} (engine_yielding (0::nat) :: (unit, nat) engine)
         (savefig_yielding [0x89, 0x50, 0x4E, 0x47, 0x0D, 0x0A, 0x1A, 0x0A]) True
         ''dog dog cat bird dog cat'' 100 ''#FFFFFF'' ''viridis'' ''thing, stuff''))"
proof -
  have m: "Download_button \<lparr> db_label = download_label,
       db_data = [0x89, 0x50, 0x4E, 0x47, 0x0D, 0x0A, 0x1A, 0x0A],
       db_file_name = ''my_word_cloud.png'', db_mime = ''image/png'',
       db_use_container_width = True \<rparr>
     \<in> set (snd (app {''the'', ''a''} (engine_yielding (0::nat) :: (unit, nat) engine)
         (savefig_yielding [0x89, 0x50, 0x4E, 0x47, 0x0D, 0x0A, 0x1A, 0x0A]) True
         ''dog dog cat bird dog cat'' 100 ''#FFFFFF'' ''viridis'' ''thing, stuff''))"
    by (simp add: app_dog)
  from download_name_and_mime_fixed [OF m] m show ?thesis by blast
qed

text \<open>
  Claim C6. The slider hands the script a value on its grid from 10 to 500, and the script
  passes that value to the engine unchanged, so \<^verbatim>\<open>max_words\<close> of every engine call lies
  between 10 and 500. The values 9 and 501 are not values of the slider; 10, 500 and the
  default 100 are.
\<close>
theorem max_words_within_slider_range:
  "(slider_returns max_words_slider max_words \<longrightarrow>
      (\<forall>kw t. Generate kw t \<in> set (snd (app B engine savefig button user_text max_words
                 background_color selected_colormap custom_stopwords_input))
         \<longrightarrow> kw_max_words kw = max_words \<and> 10 \<le> kw_max_words kw \<and> kw_max_words kw \<le> 500))
   \<and> \<not> slider_returns max_words_slider 9 \<and> \<not> slider_returns max_words_slider 501
   \<and> slider_returns max_words_slider 10 \<and> slider_returns max_words_slider 500
   \<and> slider_returns max_words_slider (slider_value max_words_slider)"
proof -
  have "kw_max_words kw = max_words \<and> 10 \<le> kw_max_words kw \<and> kw_max_words kw \<le> 500"
    if s: "slider_returns max_words_slider max_words"
      and g: "Generate kw t \<in> set (snd (app B engine savefig button user_text max_words
                 background_color selected_colormap custom_stopwords_input))" for kw t
  proof -
    from app_Generate [OF g] have "kw_max_words kw = max_words"
      by (simp add: wordcloud_kwargs_def)
    with s show ?thesis by (simp add: slider_returns_def max_words_slider_def)
  qed
  moreover have "\<not> slider_returns max_words_slider 9 \<and> \<not> slider_returns max_words_slider 501
   \<and> slider_returns max_words_slider 10 \<and> slider_returns max_words_slider 500
   \<and> slider_returns max_words_slider (slider_value max_words_slider)"
    by (simp add: slider_returns_def max_words_slider_def)
  ultimately show ?thesis by blast
qed

theorem max_words_within_slider_range_witness:
  "slider_returns max_words_slider 100
   \<and> Generate (wordcloud_kwargs {''the'', ''a''} 100 ''#FFFFFF'' ''viridis'' ''thing, stuff''
       None 0 ''black'' False) ''dog dog cat bird dog cat''
     \<in> set (snd (app {''the'', ''a''} (engine_yielding (0::nat) :: (unit, nat) engine)
       (savefig_yielding [0x89, 0x50, 0x4E, 0x47, 0x0D, 0x0A, 0x1A, 0x0A]) True
       ''dog dog cat bird dog cat'' 100 ''#FFFFFF'' ''viridis'' ''thing, stuff''))
   \<and> kw_max_words (wordcloud_kwargs {''the'', ''a''} 100 ''#FFFFFF'' ''viridis''
       ''thing, stuff'' (None :: unit option) 0 ''black'' False) = 100"
proof -
  have s: "slider_returns max_words_slider 100"
    by (simp add: slider_returns_def max_words_slider_def)
  from max_words_within_slider_range [of 100 "{''the'', ''a''}"
      "engine_yielding (0::nat) :: (unit, nat) engine"
      "savefig_yielding [0x89, 0x50, 0x4E, 0x47, 0x0D, 0x0A, 0x1A, 0x0A]" True
      "''dog dog cat bird dog cat''" "''#FFFFFF''" "''viridis''" "''thing, stuff''"]
    s Generate_dog
  show ?thesis by blast
qed

text \<open>
  Claim C7. In every run of the script, whatever the widgets return, the engine is called
  without a mask, on the canvas of width 1200 and height 600, with contour width 0 (and
  contour colour black): no widget sets the mask or the contour.
\<close>
theorem default_flow_has_no_mask:
  assumes "Generate kw t \<in> set (snd (app B engine savefig button user_text max_words
             background_color selected_colormap custom_stopwords_input))"
  shows "kw_mask kw = None \<and> kw_width kw = Some 1200 \<and> kw_height kw = Some 600
         \<and> kw_contour_width kw = 0 \<and> kw_contour_color kw = ''black''"
  using app_Generate [OF assms] by (simp add: wordcloud_kwargs_def)

theorem default_flow_has_no_mask_witness:
  "kw_mask (wordcloud_kwargs {''the'', ''a''} 100 ''#FFFFFF'' ''viridis''
       ''thing, stuff'' (None :: unit option) 0 ''black'' False) = None
   \<and> kw_width (wordcloud_kwargs {''the'', ''a''} 100 ''#FFFFFF'' ''viridis''
       ''thing, stuff'' (None :: unit option) 0 ''black'' False) = Some 1200
   \<and> kw_height (wordcloud_kwargs {''the'', ''a''} 100 ''#FFFFFF'' ''viridis''
       ''thing, stuff'' (None :: unit option) 0 ''black'' False) = Some 600
   \<and> kw_contour_width (wordcloud_kwargs {''the'', ''a''} 100 ''#FFFFFF'' ''viridis''
       ''thing, stuff'' (None :: unit option) 0 ''black'' False) = 0"
  using default_flow_has_no_mask [OF Generate_dog] by blast

text \<open>
  Claim C8. Every call of \<^verbatim>\<open>generate_wordcloud\<close>, whatever its arguments, configures the
  engine with the minimum font size 10 and the horizontal preference 0.9, a weight between
  0 and 1.
\<close>
theorem font_size_and_orientation_fixed:
  assumes "Generate kw t \<in> set (snd (generate_wordcloud B engine text max_words
             background_color colormap custom_stopwords mask_image_array contour_width
             contour_color use_contour))"
  shows "kw_min_font_size kw = 10 \<and> kw_prefer_horizontal kw = 9 / 10
         \<and> 0 \<le> kw_prefer_horizontal kw \<and> kw_prefer_horizontal kw \<le> 1"
  using assms
  by (auto simp: snd_generate_wordcloud wordcloud_kwargs_def split: if_splits)

theorem font_size_and_orientation_fixed_witness:
  "kw_min_font_size (wordcloud_kwargs {''the''} 250 ''#000000'' ''plasma'' ''x''
       (Some (3::nat)) 2 ''red'' True) = 10
   \<and> kw_prefer_horizontal (wordcloud_kwargs {''the''} 250 ''#000000'' ''plasma'' ''x''
       (Some (3::nat)) 2 ''red'' True) = 9 / 10"
proof -
  have "Generate (wordcloud_kwargs {''the''} 250 ''#000000'' ''plasma'' ''x''
       (Some (3::nat)) 2 ''red'' True) ''dog cat''
     \<in> set (snd (generate_wordcloud {''the''} (engine_yielding (0::nat)) ''dog cat'' 250
          ''#000000'' ''plasma'' ''x'' (Some (3::nat)) 2 ''red'' True))"
    by (simp add: snd_generate_wordcloud engine_yielding_def)
  from font_size_and_orientation_fixed [OF this] show ?thesis by blast
qed




text \<open>
  Claim C10. For entries without commas, the stopword set is the same when the entries are
  permuted, when an entry is repeated, when entries differ only in surrounding whitespace
  (they strip to the same strings) and when they differ only in letter case (they lower to
  the same strings). When every comma-separated piece is blank, and when the string is
  empty, the set is the baseline.
\<close>
theorem stopwords_insensitive:
  assumes "\<forall>w\<in>set ws. CHR '','' \<notin> set w" and "\<forall>w\<in>set ws'. CHR '','' \<notin> set w"
  shows "(mset ws' = mset ws \<longrightarrow>
            stopwords_set B (join CHR '','' ws') = stopwords_set B (join CHR '','' ws))
       \<and> (\<forall>w\<in>set ws.
            stopwords_set B (join CHR '','' (ws @ [w])) = stopwords_set B (join CHR '','' ws))
       \<and> (map strip ws' = map strip ws \<longrightarrow>
            stopwords_set B (join CHR '','' ws') = stopwords_set B (join CHR '','' ws))
       \<and> (map lower ws' = map lower ws \<longrightarrow>
            stopwords_set B (join CHR '','' ws') = stopwords_set B (join CHR '','' ws))
       \<and> ((\<forall>w\<in>set (split CHR '','' s). \<forall>c\<in>set w. isspace c) \<longrightarrow> stopwords_set B s = B)
       \<and> stopwords_set B [] = B"
proof -
  note j = stopwords_set_join [OF assms(1)] and j' = stopwords_set_join [OF assms(2)]
  have perm: "stopwords_set B (join CHR '','' ws') = stopwords_set B (join CHR '','' ws)"
    if "mset ws' = mset ws"
  proof -
    from that have "set ws' = set ws" by (rule mset_eq_setD)
    then show ?thesis by (simp add: j j')
  qed
  have dup: "stopwords_set B (join CHR '','' (ws @ [w])) = stopwords_set B (join CHR '','' ws)"
    if "w \<in> set ws" for w
  proof -
    from that assms(1) have "\<forall>v\<in>set (ws @ [w]). CHR '','' \<notin> set v" by auto
    from stopwords_set_join [OF this] that show ?thesis by (simp add: j insert_absorb)
  qed
  have pad: "stopwords_set B (join CHR '','' ws') = stopwords_set B (join CHR '','' ws)"
    if "map strip ws' = map strip ws"
    using that by (simp add: j j' norm_image_strip)
  have cas: "stopwords_set B (join CHR '','' ws') = stopwords_set B (join CHR '','' ws)"
    if "map lower ws' = map lower ws"
    using that by (simp add: j j' norm_image_lower)
  have "stopwords_set B [] = B" by (simp add: stopwords_set_def)
  with perm dup pad cas stopwords_set_blank [of s B] show ?thesis by blast
qed

theorem stopwords_insensitive_witness:
  "stopwords_set {''the''} ''bar,foo'' = stopwords_set {''the''} ''foo,bar''
   \<and> stopwords_set {''the''} ''foo,bar,foo'' = stopwords_set {''the''} ''foo,bar''
   \<and> stopwords_set {''the''} '' foo,bar  '' = stopwords_set {''the''} ''foo,bar''
   \<and> stopwords_set {''the''} ''FOO,Bar'' = stopwords_set {''the''} ''foo,bar''
   \<and> stopwords_set {''the''} '' , ,'' = {''the''}"
proof -
  have c: "\<forall>w\<in>set [''foo'', ''bar'']. CHR '','' \<notin> set w" by simp
  have p: "stopwords_set {''the''} ''bar,foo'' = stopwords_set {''the''} ''foo,bar''"
    using stopwords_insensitive [OF c, of "[''bar'', ''foo'']" "{''the''}" "[]"] by simp
  have d: "stopwords_set {''the''} ''foo,bar,foo'' = stopwords_set {''the''} ''foo,bar''"
    using stopwords_insensitive [OF c, of "[''bar'', ''foo'']" "{''the''}" "[]"] by simp
  have s: "stopwords_set {''the''} '' foo,bar  '' = stopwords_set {''the''} ''foo,bar''"
  proof -
    have "map strip ['' foo'', ''bar  ''] = map strip [''foo'', ''bar'']"
      by (simp add: strip_def lstrip_def rstrip_def isspace_def)
    with stopwords_insensitive [OF c, of "['' foo'', ''bar  '']" "{''the''}" "[]"]
    show ?thesis by simp
  qed
  have l: "stopwords_set {''the''} ''FOO,Bar'' = stopwords_set {''the''} ''foo,bar''"
  proof -
    have "map lower [''FOO'', ''Bar''] = map lower [''foo'', ''bar'']"
      by code_simp
    with stopwords_insensitive [OF c, of "[''FOO'', ''Bar'']" "{''the''}" "[]"]
    show ?thesis by simp
  qed
  have e: "stopwords_set {''the''} '' , ,'' = {''the''}"
  proof -
    have "\<forall>w\<in>set (split CHR '','' '' , ,''). \<forall>c\<in>set w. isspace c"
      by (simp add: split_def isspace_def)
    with stopwords_insensitive [OF c c, of "{''the''}" "'' , ,''"]
    show ?thesis by blast
  qed
  from p d s l e show ?thesis by blast
qed

end
